theory Spec2Isabelle
  imports Complex_Main
begin

section \<open>JavaScript values\<close>

text \<open>
  The components run on JavaScript values. A Number is \<open>NaN\<close>, an infinity, or the
  Number value for a rational: \<open>Fin q\<close> stands for the double nearest to \<open>q\<close>, so
  the rounding of a decimal to a double is kept symbolic and the sign of zero is dropped.
  The code tests numbers only with \<open>isNaN\<close> and by truthiness, never by comparison.

  A string is a \<open>string\<close>; each \<open>char\<close> stands for the code unit of the same
  number, so the strings covered are those of code units below 256.
\<close>

datatype number = NaN | PosInfinity | NegInfinity | Fin rat

datatype jsval =
    JUndefined
  | JNull
  | JBool bool
  | JNum number
  | JStr string
  | JArr "jsval list"
  | JObj "(string \<times> jsval) list"

datatype error = TypeError | Error string

definition isNaN :: "number \<Rightarrow> bool" where
  "isNaN n = (n = NaN)"

text \<open>ToBoolean, which \<open>||\<close>, \<open>&&\<close> and the conditional operator apply.\<close>

fun truthy :: "jsval \<Rightarrow> bool" where
  "truthy JUndefined = False"
| "truthy JNull = False"
| "truthy (JBool b) = b"
| "truthy (JNum n) = (n \<noteq> NaN \<and> n \<noteq> Fin 0)"
| "truthy (JStr s) = (s \<noteq> [])"
| "truthy (JArr xs) = True"
| "truthy (JObj kvs) = True"

text \<open>\<open>a || b\<close>: the left operand when it is truthy, else the right one.\<close>

definition js_or :: "jsval \<Rightarrow> jsval \<Rightarrow> jsval" where
  "js_or a b = (if truthy a then a else b)"

text \<open>
  Property access \<open>v.k\<close> for the property names the code reads (\<open>events\<close>, \<open>id\<close>,
  \<open>name\<close>, \<open>latitude\<close>, \<open>longitude\<close>, \<open>country\<close>, \<open>region\<close>, \<open>status\<close>):
  a TypeError on \<open>undefined\<close> and \<open>null\<close>, the own property of an object parsed
  from JSON, and \<open>undefined\<close> on every other value, whose prototypes define none of
  these names. The list of an object holds its own properties, one entry per key.
\<close>

fun get_prop :: "jsval \<Rightarrow> string \<Rightarrow> error + jsval" where
  "get_prop JUndefined k = Inl TypeError"
| "get_prop JNull k = Inl TypeError"
| "get_prop (JObj kvs) k = Inr (case map_of kvs k of None \<Rightarrow> JUndefined | Some v \<Rightarrow> v)"
| "get_prop v k = Inr JUndefined"

subsection \<open>parseFloat\<close>

text \<open>
  \<open>parseFloat\<close> of a string skips leading white space and reads the longest prefix
  that is a StrDecimalLiteral: an optional sign, then \<open>Infinity\<close> or decimal digits
  with an optional fraction and an optional exponent, at least one digit before or
  after the point. With no such prefix the result is \<open>NaN\<close>.
\<close>

definition is_ws :: "char \<Rightarrow> bool" where
  "is_ws c = (c \<in> set [CHR 0x09, CHR 0x0A, CHR 0x0B, CHR 0x0C, CHR 0x0D, CHR 0x20, CHR 0xA0])"

definition is_digit :: "char \<Rightarrow> bool" where
  "is_digit c = (c \<in> set ''0123456789'')"

definition digit_val :: "char \<Rightarrow> int" where
  "digit_val c = of_char c - 48"

definition digits_val :: "string \<Rightarrow> int" where
  "digits_val ds = foldl (\<lambda>n d. 10 * n + digit_val d) 0 ds"

text \<open>The value of the ExponentPart at the head of a string, 0 when there is none.\<close>

definition exponent :: "string \<Rightarrow> int" where
  "exponent s =
     (case s of
        [] \<Rightarrow> 0
      | c # r \<Rightarrow>
          if c = CHR ''e'' \<or> c = CHR ''E'' then
            (case r of
               [] \<Rightarrow> 0
             | d # r' \<Rightarrow>
                 if d = CHR ''-'' then - digits_val (takeWhile is_digit r')
                 else if d = CHR ''+'' then digits_val (takeWhile is_digit r')
                 else digits_val (takeWhile is_digit r))
          else 0)"

definition scale10 :: "rat \<Rightarrow> int \<Rightarrow> rat" where
  "scale10 q e = (if 0 \<le> e then q * 10 ^ nat e else q / 10 ^ nat (- e))"

text \<open>The sign at the head of a string, and the string after it.\<close>

fun sign :: "string \<Rightarrow> bool \<times> string" where
  "sign [] = (False, [])"
| "sign (c # cs) =
     (if c = CHR ''-'' then (True, cs)
      else if c = CHR ''+'' then (False, cs)
      else (False, c # cs))"

text \<open>The digits after a decimal point at the head of a string, and what follows them.\<close>

fun fraction :: "string \<Rightarrow> string \<times> string" where
  "fraction [] = ([], [])"
| "fraction (c # cs) =
     (if c = CHR ''.'' then (takeWhile is_digit cs, dropWhile is_digit cs)
      else ([], c # cs))"

definition parseFloat_string :: "string \<Rightarrow> number" where
  "parseFloat_string s =
     (case sign (dropWhile is_ws s) of
        (neg, u) \<Rightarrow>
          if take 8 u = ''Infinity'' then (if neg then NegInfinity else PosInfinity)
          else
            (case fraction (dropWhile is_digit u) of
               (fp, r) \<Rightarrow>
                 if takeWhile is_digit u = [] \<and> fp = [] then NaN
                 else Fin (scale10
                        ((if neg then - 1 else 1)
                           * of_int (digits_val (takeWhile is_digit u @ fp)) / 10 ^ length fp)
                        (exponent r))))"

text \<open>
  \<open>parseFloat\<close> of any value applies ToString first. ToString of an object asks
  its \<open>toString\<close> and then its \<open>valueOf\<close> for a primitive: an object parsed from
  JSON that has an own key \<open>toString\<close> holds a value there that cannot be called, the
  inherited \<open>valueOf\<close> gives the object back, and ToString throws a TypeError. An
  array joins the strings of its elements, so it throws when one of them does. On
  every other value ToString returns.
\<close>

fun ToString_throws :: "jsval \<Rightarrow> bool" where
  "ToString_throws (JObj kvs) = (map_of kvs ''toString'' \<noteq> None)"
| "ToString_throws (JArr xs) = list_ex ToString_throws xs"
| "ToString_throws v = False"

text \<open>
  The Number \<open>parseFloat\<close> reads when ToString returns. A Number prints as a decimal
  that reads back as the same Number. \<open>undefined\<close>, \<open>null\<close>, a boolean and an
  object print as words that start with no digit. An array prints as its elements'
  strings joined by commas (nothing for \<open>null\<close> and \<open>undefined\<close>), and a comma
  ends the numeric prefix: the result is that of the first element.
\<close>

fun parseFloat_number :: "jsval \<Rightarrow> number" where
  "parseFloat_number (JStr s) = parseFloat_string s"
| "parseFloat_number (JNum n) = n"
| "parseFloat_number (JArr (x # xs)) = parseFloat_number x"
| "parseFloat_number v = NaN"

definition parseFloat :: "jsval \<Rightarrow> error + number" where
  "parseFloat v = (if ToString_throws v then Inl TypeError else Inr (parseFloat_number v))"

section \<open>The WKT coordinate parser\<close>

text \<open>
  \<open>wkt.match(/POINT \(([^\)]+)\)/)\<close>: the leftmost place where \<open>POINT (\<close> is
  followed by one or more characters other than \<open>)\<close> and then by \<open>)\<close>; the result
  is the group, the run between the parentheses. The run is greedy and the character
  after it must be \<open>)\<close>, so at one place the match is the whole run or nothing.
\<close>

definition match_here :: "string \<Rightarrow> string option" where
  "match_here s =
     (if take 7 s = ''POINT (''
      then (let g = takeWhile (\<lambda>c. c \<noteq> CHR '')'') (drop 7 s);
                r = dropWhile (\<lambda>c. c \<noteq> CHR '')'') (drop 7 s)
            in if g \<noteq> [] \<and> r \<noteq> [] then Some g else None)
      else None)"

fun wkt_match :: "string \<Rightarrow> string option" where
  "wkt_match [] = None"
| "wkt_match (c # cs) =
     (case match_here (c # cs) of Some g \<Rightarrow> Some g | None \<Rightarrow> wkt_match cs)"

text \<open>\<open>s.split(' ')\<close>: the pieces between single spaces, empty pieces included.\<close>

function split :: "char \<Rightarrow> string \<Rightarrow> string list" where
  "split sep s =
     takeWhile (\<lambda>c. c \<noteq> sep) s #
       (case dropWhile (\<lambda>c. c \<noteq> sep) s of [] \<Rightarrow> [] | c # r \<Rightarrow> split sep r)"
  by pat_completeness auto
termination
proof (relation "measure (\<lambda>(sep, s). length s)")
  show "wf (measure (\<lambda>(sep, s). length s))"
    by simp
next
  fix sep :: char and s :: string and c :: char and r :: string
  assume "dropWhile (\<lambda>c. c \<noteq> sep) s = c # r"
  then have "length r < length (dropWhile (\<lambda>c. c \<noteq> sep) s)"
    by simp
  also have "\<dots> \<le> length s"
    by (rule length_dropWhile_le)
  finally show "((sep, r), (sep, s)) \<in> measure (\<lambda>(sep, s). length s)"
    by simp
qed

declare split.simps [simp del]

text \<open>
  \<open>coords[i]\<close>: the piece at index \<open>i\<close>, \<open>undefined\<close> past the end. Either
  is a value on which ToString returns, so \<open>parseFloat\<close> of it returns its
  \<open>parseFloat_number\<close>.
\<close>

definition index :: "string list \<Rightarrow> nat \<Rightarrow> jsval" where
  "index xs i = (if i < length xs then JStr (xs ! i) else JUndefined)"

record Coords =
  longitude :: number
  latitude :: number

definition parseWKT :: "string \<Rightarrow> Coords option" where
  "parseWKT wkt =
     (case wkt_match wkt of
        Some g \<Rightarrow>
          (let coords = split CHR '' '' g
           in Some \<lparr> longitude = parseFloat_number (index coords 0),
                     latitude = parseFloat_number (index coords 1) \<rparr>)
      | None \<Rightarrow> None)"

text \<open>
  The vocabulary of the parser's contract: a signed decimal token, given by its sign,
  its integer digits and its fraction digits, and the rational it denotes.
\<close>

definition decimal_token :: "bool \<Rightarrow> string \<Rightarrow> string \<Rightarrow> string" where
  "decimal_token neg ip fp =
     (if neg then ''-'' else []) @ ip @ (if fp = [] then [] else CHR ''.'' # fp)"

definition decimal_value :: "bool \<Rightarrow> string \<Rightarrow> string \<Rightarrow> rat" where
  "decimal_value neg ip fp =
     (if neg then - 1 else 1) * (of_int (digits_val ip) + of_int (digits_val fp) / 10 ^ length fp)"

section \<open>The normalized records\<close>

text \<open>
  \<open>ParkrunEvent\<close> and \<open>ThemePark\<close> share the coordinates, \<open>name\<close> and
  \<open>country\<close>, so both extend one record. The feed is untyped at run time: a field
  the interface declares a string or a number holds whatever value the entry had.
  A property an object does not have reads as \<open>undefined\<close>.
\<close>

record Place = Coords +
  name :: jsval
  country :: jsval

record ParkrunEvent = Place +
  event_id :: jsval
  region :: jsval
  status :: jsval

record ThemePark = Place +
  state :: jsval

section \<open>The running-events feed\<close>

definition bind :: "error + 'a \<Rightarrow> ('a \<Rightarrow> error + 'b) \<Rightarrow> error + 'b" where
  "bind m f = (case m of Inl e \<Rightarrow> Inl e | Inr x \<Rightarrow> f x)"

text \<open>
  The callback of \<open>data.events?.map(...)\<close>: it throws when the entry is \<open>null\<close>,
  and when \<open>parseFloat\<close> throws on its latitude or its longitude.
\<close>

definition transform_event :: "jsval \<Rightarrow> error + ParkrunEvent" where
  "transform_event event =
     bind (get_prop event ''id'') (\<lambda>i.
     bind (get_prop event ''name'') (\<lambda>n.
     bind (get_prop event ''latitude'') (\<lambda>la.
     bind (parseFloat la) (\<lambda>lat.
     bind (get_prop event ''longitude'') (\<lambda>lo.
     bind (parseFloat lo) (\<lambda>lng.
     bind (get_prop event ''country'') (\<lambda>c.
     bind (get_prop event ''region'') (\<lambda>r.
     bind (get_prop event ''status'') (\<lambda>s.
       Inr \<lparr> longitude = lng,
             latitude = lat,
             name = n,
             country = js_or c (JStr ''UK''),
             event_id = i,
             region = js_or r (JStr []),
             status = js_or s (JStr ''active'') \<rparr>)))))))))"

fun map_events :: "jsval list \<Rightarrow> error + ParkrunEvent list" where
  "map_events [] = Inr []"
| "map_events (e # es) =
     bind (transform_event e) (\<lambda>x. bind (map_events es) (\<lambda>xs. Inr (x # xs)))"

text \<open>
  \<open>data.events?.map(...).filter(...) || []\<close>: reading \<open>events\<close> of \<open>null\<close>
  throws; an \<open>events\<close> that is \<open>undefined\<close> or \<open>null\<close> ends the optional chain
  and gives \<open>[]\<close>; an array is mapped and filtered; any other value has no callable
  \<open>map\<close>, and the call throws.
\<close>

definition transform :: "jsval \<Rightarrow> error + ParkrunEvent list" where
  "transform data =
     bind (get_prop data ''events'') (\<lambda>events.
       case events of
         JUndefined \<Rightarrow> Inr []
       | JNull \<Rightarrow> Inr []
       | JArr es \<Rightarrow>
           bind (map_events es) (\<lambda>evs.
             Inr (filter (\<lambda>event. \<not> isNaN (latitude event) \<and> \<not> isNaN (longitude event)) evs))
       | _ \<Rightarrow> Inl TypeError)"

text \<open>
  What the request can come to: \<open>fetch\<close> rejects, or it resolves with a response that
  has the flag \<open>ok\<close> and a body; \<open>response.json()\<close> gives the parsed body, or rejects
  (\<open>None\<close>) when the body is not JSON.
\<close>

datatype fetch_outcome = NetworkFailure | Response bool "jsval option"

definition sampleParkruns :: "ParkrunEvent list" where
  "sampleParkruns =
     [ \<lparr> longitude = Fin (- 3370 / 10000), latitude = Fin (514108 / 10000),
         name = JStr ''Bushy Park parkrun'', country = JStr ''UK'',
         event_id = JNum (Fin 1), region = JStr ''London'', status = JStr ''active'' \<rparr>,
       \<lparr> longitude = Fin (- 2356 / 10000), latitude = Fin (514297 / 10000),
         name = JStr ''Wimbledon Common parkrun'', country = JStr ''UK'',
         event_id = JNum (Fin 2), region = JStr ''London'', status = JStr ''active'' \<rparr>,
       \<lparr> longitude = Fin (- 1656 / 10000), latitude = Fin (515584 / 10000),
         name = JStr ''Hampstead Heath parkrun'', country = JStr ''UK'',
         event_id = JNum (Fin 3), region = JStr ''London'', status = JStr ''active'' \<rparr>,
       \<lparr> longitude = Fin (- 18904 / 10000), latitude = Fin (524862 / 10000),
         name = JStr ''Birmingham parkrun'', country = JStr ''UK'',
         event_id = JNum (Fin 4), region = JStr ''Midlands'', status = JStr ''active'' \<rparr>,
       \<lparr> longitude = Fin (- 22426 / 10000), latitude = Fin (534808 / 10000),
         name = JStr ''Manchester parkrun'', country = JStr ''UK'',
         event_id = JNum (Fin 5), region = JStr ''North'', status = JStr ''active'' \<rparr> ]"

text \<open>The \<open>try\<close> block of \<open>fetchParkruns\<close> up to the transformed events.\<close>

definition fetch_events :: "fetch_outcome \<Rightarrow> error + ParkrunEvent list" where
  "fetch_events outcome =
     (case outcome of
        NetworkFailure \<Rightarrow> Inl TypeError
      | Response ok body \<Rightarrow>
          if \<not> ok then Inl (Error ''Failed to fetch parkrun data'')
          else (case body of
                  None \<Rightarrow> Inl (Error ''SyntaxError'')
                | Some data \<Rightarrow> transform data))"

section \<open>The attractions\<close>

text \<open>
  The tabular source: PapaParse with \<open>header: true\<close> gives one object per line, from
  column name to the text of the cell. A row is a map; a column the row does not have
  reads as \<open>undefined\<close>. What \<open>parseFloat\<close> is given here is a string or
  \<open>undefined\<close>, on which ToString returns: it returns its \<open>parseFloat_number\<close>.
\<close>

type_synonym row = "string \<rightharpoonup> string"

definition column :: "row \<Rightarrow> string \<Rightarrow> jsval" where
  "column row k = (case row k of None \<Rightarrow> JUndefined | Some v \<Rightarrow> JStr v)"

definition themePark_of_row :: "row \<Rightarrow> ThemePark" where
  "themePark_of_row row =
     \<lparr> longitude = parseFloat_number (js_or (js_or (js_or (column row ''longitude'')
                     (column row ''Longitude'')) (column row ''lng'')) (column row ''lon'')),
       latitude = parseFloat_number (js_or (js_or (column row ''latitude'')
                     (column row ''Latitude'')) (column row ''lat'')),
       name = js_or (js_or (column row ''name'') (column row ''Name'')) (JStr []),
       country = js_or (js_or (column row ''country'') (column row ''Country'')) (JStr []),
       state = js_or (js_or (column row ''state'') (column row ''State'')) (JStr []) \<rparr>"

definition parks_csv :: "row list \<Rightarrow> ThemePark list" where
  "parks_csv data =
     filter (\<lambda>park. truthy (name park) \<and> \<not> isNaN (latitude park) \<and> \<not> isNaN (longitude park))
       (map themePark_of_row data)"

text \<open>
  What loading the table can come to: the request rejects, the parser calls \<open>error\<close>,
  or it calls \<open>complete\<close> with the rows.
\<close>

datatype csv_outcome = FetchFailed | ParseError | Parsed "row list"

text \<open>
  The static source of the earlier version of the component: a literal list of items
  with a WKT point each. The list is an argument here; the items are kept when
  \<open>parseWKT\<close> gives coordinates, and nothing else is checked.
\<close>

record Item =
  wkt :: string
  item_name :: string
  description :: string

definition park_of_item :: "Item \<Rightarrow> ThemePark option" where
  "park_of_item item =
     (case parseWKT (wkt item) of
        None \<Rightarrow> None
      | Some coords \<Rightarrow>
          Some \<lparr> longitude = longitude coords,
                 latitude = latitude coords,
                 name = JStr (item_name item),
                 country = JStr ''International'',
                 state = JUndefined \<rparr>)"

fun not_null :: "'a option list \<Rightarrow> 'a list" where
  "not_null [] = []"
| "not_null (None # xs) = not_null xs"
| "not_null (Some x # xs) = x # not_null xs"

definition parks_wkt :: "Item list \<Rightarrow> ThemePark list" where
  "parks_wkt themeParkData = not_null (map park_of_item themeParkData)"

section \<open>The page and the map\<close>

text \<open>
  A marker: its position, its icon and the values its popup shows, in order.
  Leaflet's \<open>L.marker\<close> throws on a position with a \<open>NaN\<close>. The popup's text is a
  template literal, which applies ToString to each value it interpolates and throws
  when ToString does. The marker keeps the values: the string of a Number depends on
  its double, which \<open>Fin\<close> leaves symbolic.
\<close>

datatype icon = parkrunIcon | themeParkIcon

record Marker =
  position :: "number \<times> number"
  marker_icon :: icon
  popup :: "jsval list"

definition marker :: "number \<Rightarrow> number \<Rightarrow> icon \<Rightarrow> error + Marker" where
  "marker lat lng ic =
     (if isNaN lat \<or> isNaN lng then Inl (Error ''Invalid LatLng object'')
      else Inr \<lparr> position = (lat, lng), marker_icon = ic, popup = [] \<rparr>)"

definition bindPopup :: "jsval list \<Rightarrow> Marker \<Rightarrow> error + Marker" where
  "bindPopup values m =
     (if list_ex ToString_throws values then Inl TypeError
      else Inr (m\<lparr> popup := values \<rparr>))"

definition parkrun_marker :: "ParkrunEvent \<Rightarrow> error + Marker" where
  "parkrun_marker parkrun =
     bind (marker (latitude parkrun) (longitude parkrun) parkrunIcon)
       (bindPopup [name parkrun, region parkrun, country parkrun, status parkrun])"

definition themePark_marker :: "ThemePark \<Rightarrow> error + Marker" where
  "themePark_marker park =
     bind (marker (latitude park) (longitude park) themeParkIcon)
       (bindPopup (if truthy (state park) then [name park, state park, country park]
                   else [name park, country park]))"

text \<open>\<open>xs.forEach(...)\<close> adding one marker per record to a layer group, in order.\<close>

fun add_markers :: "('a \<Rightarrow> error + Marker) \<Rightarrow> 'a list \<Rightarrow> Marker list \<Rightarrow> error + Marker list" where
  "add_markers mk [] layers = Inr layers"
| "add_markers mk (x # xs) layers = bind (mk x) (\<lambda>m. add_markers mk xs (layers @ [m]))"

text \<open>
  The state of the page: the flags and counts of \<open>Index\<close>, and the datasets, the map
  and the two layer groups of \<open>InteractiveMap\<close>. \<open>map_current\<close> says that
  \<open>map.current\<close> holds a map.
\<close>

record App =
  showParkruns :: bool
  showThemeParks :: bool
  parkrunCount :: nat
  themeParkCount :: nat
  map_current :: bool
  parkruns :: "ParkrunEvent list"
  themeParks :: "ThemePark list"
  parkrunLayerGroup :: "Marker list"
  themeParkLayerGroup :: "Marker list"
  toasts :: "string list"

text \<open>\<open>fetchParkruns\<close>: the events and their count, or the sample list, 5 and a toast.\<close>

definition fetchParkruns :: "fetch_outcome \<Rightarrow> App \<Rightarrow> App" where
  "fetchParkruns outcome st =
     (case fetch_events outcome of
        Inr events \<Rightarrow> st\<lparr> parkruns := events, parkrunCount := length events \<rparr>
      | Inl e \<Rightarrow>
          st\<lparr> parkruns := sampleParkruns,
              parkrunCount := length sampleParkruns,
              toasts := toasts st @ [''Using sample data''] \<rparr>)"

definition fetchThemeParks :: "csv_outcome \<Rightarrow> App \<Rightarrow> App" where
  "fetchThemeParks outcome st =
     (case outcome of
        Parsed data \<Rightarrow>
          st\<lparr> themeParks := parks_csv data, themeParkCount := length (parks_csv data) \<rparr>
      | ParseError \<Rightarrow> st\<lparr> toasts := toasts st @ [''Error loading theme parks''] \<rparr>
      | FetchFailed \<Rightarrow> st\<lparr> toasts := toasts st @ [''Error loading theme parks''] \<rparr>)"

text \<open>The two marker effects: nothing without a map; else clear the group and refill it.\<close>

definition updateParkrunMarkers :: "App \<Rightarrow> error + App" where
  "updateParkrunMarkers st =
     (if \<not> map_current st then Inr st
      else if showParkruns st
      then bind (add_markers parkrun_marker (parkruns st) [])
             (\<lambda>layers. Inr (st\<lparr> parkrunLayerGroup := layers \<rparr>))
      else Inr (st\<lparr> parkrunLayerGroup := [] \<rparr>))"

definition updateThemeParkMarkers :: "App \<Rightarrow> error + App" where
  "updateThemeParkMarkers st =
     (if \<not> map_current st then Inr st
      else if showThemeParks st
      then bind (add_markers themePark_marker (themeParks st) [])
             (\<lambda>layers. Inr (st\<lparr> themeParkLayerGroup := layers \<rparr>))
      else Inr (st\<lparr> themeParkLayerGroup := [] \<rparr>))"

text \<open>
  The page after its first commit: both flags on, no data, and a map when the
  container is there. Both marker effects have run on the empty datasets.
\<close>

definition mount :: "bool \<Rightarrow> App" where
  "mount container =
     \<lparr> showParkruns = True, showThemeParks = True,
       parkrunCount = 0, themeParkCount = 0,
       map_current = container,
       parkruns = [], themeParks = [],
       parkrunLayerGroup = [], themeParkLayerGroup = [],
       toasts = [] \<rparr>"

text \<open>
  What happens afterwards: a click on a toggle, or one of the two loads settling.
  Each changes the state, and React then runs the marker effect whose dependencies
  changed. An error thrown by an effect takes the page down.
\<close>

datatype event =
    ToggleParkruns
  | ToggleThemeParks
  | ParkrunsFetched fetch_outcome
  | ThemeParksFetched csv_outcome

fun step :: "event \<Rightarrow> App \<Rightarrow> error + App" where
  "step ToggleParkruns st = updateParkrunMarkers (st\<lparr> showParkruns := \<not> showParkruns st \<rparr>)"
| "step ToggleThemeParks st = updateThemeParkMarkers (st\<lparr> showThemeParks := \<not> showThemeParks st \<rparr>)"
| "step (ParkrunsFetched outcome) st = updateParkrunMarkers (fetchParkruns outcome st)"
| "step (ThemeParksFetched (Parsed data)) st = updateThemeParkMarkers (fetchThemeParks (Parsed data) st)"
| "step (ThemeParksFetched outcome) st = Inr (fetchThemeParks outcome st)"

fun run :: "event list \<Rightarrow> App \<Rightarrow> error + App" where
  "run [] st = Inr st"
| "run (e # es) st = bind (step e st) (run es)"

text \<open>The markers on the map: those of the two layer groups, when there is a map.\<close>

definition visibleMarkers :: "App \<Rightarrow> Marker list" where
  "visibleMarkers st =
     (if map_current st then parkrunLayerGroup st @ themeParkLayerGroup st else [])"

text \<open>
  The invariant of the page: no running event has a \<open>NaN\<close> coordinate, the markers
  of the attractions can be made, and each layer group holds the markers of its dataset
  when its flag is on and there is a map, and nothing otherwise.
\<close>

definition markers_made :: "App \<Rightarrow> bool" where
  "markers_made st \<longleftrightarrow>
     list_all (\<lambda>ev. \<not> isNaN (latitude ev) \<and> \<not> isNaN (longitude ev)) (parkruns st)
     \<and> (if map_current st \<and> showParkruns st
         then add_markers parkrun_marker (parkruns st) [] = Inr (parkrunLayerGroup st)
         else parkrunLayerGroup st = [])
     \<and> (\<exists>l2. add_markers themePark_marker (themeParks st) [] = Inr l2
           \<and> themeParkLayerGroup st = (if map_current st \<and> showThemeParks st then l2 else []))"

text \<open>
  Every value the popup of a running event shows has a string: what \<open>ToString\<close>
  needs of the records of a dataset for their markers to be made.
\<close>

definition popup_has_text :: "ParkrunEvent \<Rightarrow> bool" where
  "popup_has_text ev \<longleftrightarrow>
     \<not> ToString_throws (name ev) \<and> \<not> ToString_throws (region ev)
     \<and> \<not> ToString_throws (country ev) \<and> \<not> ToString_throws (status ev)"

section \<open>Properties of the parsers\<close>

text \<open>On a piece of the split text \<open>parseFloat\<close> returns, with the Number read.\<close>

lemma parseFloat_index: "parseFloat (index coords i) = Inr (parseFloat_number (index coords i))"
  by (simp add: parseFloat_def index_def)

lemma is_digit_cases:
  "is_digit c \<Longrightarrow> \<not> is_ws c \<and> c \<noteq> CHR ''-'' \<and> c \<noteq> CHR ''+'' \<and> c \<noteq> CHR ''.''
     \<and> c \<noteq> CHR ''I'' \<and> c \<noteq> CHR '' '' \<and> c \<noteq> CHR '')''"
  by (auto simp: is_digit_def is_ws_def)

lemma not_digit_point: "\<not> is_digit CHR ''.''"
  by (simp add: is_digit_def)

lemma digits_val_foldl:
  "foldl (\<lambda>n d. 10 * n + digit_val d) a ds = a * 10 ^ length ds + digits_val ds"
  unfolding digits_val_def
proof (induction ds arbitrary: a)
  case Nil
  show ?case by simp
next
  case (Cons d ds)
  have "foldl (\<lambda>n d. 10 * n + digit_val d) a (d # ds)
        = foldl (\<lambda>n d. 10 * n + digit_val d) (10 * a + digit_val d) ds"
    by simp
  also have "\<dots> = (10 * a + digit_val d) * 10 ^ length ds
                     + foldl (\<lambda>n d. 10 * n + digit_val d) 0 ds"
    by (rule Cons.IH)
  finally show ?case
    using Cons.IH [of "digit_val d"] by (simp add: algebra_simps)
qed

lemma digits_val_append:
  "digits_val (xs @ ys) = digits_val xs * 10 ^ length ys + digits_val ys"
proof -
  have "digits_val (xs @ ys) = foldl (\<lambda>n d. 10 * n + digit_val d) (digits_val xs) ys"
    by (simp add: digits_val_def)
  then show ?thesis
    by (simp only: digits_val_foldl)
qed

lemma takeWhile_digits:
  "list_all is_digit ip \<Longrightarrow> takeWhile is_digit (ip @ (if fp = [] then [] else CHR ''.'' # fp)) = ip"
  by (induction ip) (auto simp: not_digit_point)

lemma dropWhile_digits:
  "list_all is_digit ip \<Longrightarrow>
   dropWhile is_digit (ip @ (if fp = [] then [] else CHR ''.'' # fp))
     = (if fp = [] then [] else CHR ''.'' # fp)"
  by (induction ip) (auto simp: not_digit_point)

lemma takeWhile_all: "list_all P xs \<Longrightarrow> takeWhile P xs = xs"
  by (induction xs) auto

lemma dropWhile_all: "list_all P xs \<Longrightarrow> dropWhile P xs = []"
  by (induction xs) auto

lemma sign_token:
  assumes "ip \<noteq> []" "list_all is_digit ip"
  shows "sign (dropWhile is_ws (decimal_token neg ip fp))
           = (neg, ip @ (if fp = [] then [] else CHR ''.'' # fp))"
proof -
  obtain d ds where ip: "ip = d # ds"
    using assms(1) by (cases ip) auto
  with assms(2) have d: "is_digit d" by simp
  show ?thesis
  proof (cases neg)
    case True
    have "\<not> is_ws CHR ''-''" by (simp add: is_ws_def)
    with True show ?thesis by (simp add: decimal_token_def)
  next
    case False
    with d is_digit_cases [OF d] show ?thesis
      by (simp add: decimal_token_def ip)
  qed
qed

lemma parseFloat_decimal_token:
  assumes "ip \<noteq> []" "list_all is_digit ip" "list_all is_digit fp"
  shows "parseFloat_string (decimal_token neg ip fp) = Fin (decimal_value neg ip fp)"
proof -
  let ?u = "ip @ (if fp = [] then [] else CHR ''.'' # fp)"
  obtain d ds where ip: "ip = d # ds"
    using assms(1) by (cases ip) auto
  with assms(2) have d: "is_digit d" by simp
  have inf: "take 8 ?u \<noteq> ''Infinity''"
    using is_digit_cases [OF d] by (simp add: ip)
  have tw: "takeWhile is_digit ?u = ip"
    by (rule takeWhile_digits [OF assms(2)])
  have dw: "dropWhile is_digit ?u = (if fp = [] then [] else CHR ''.'' # fp)"
    by (rule dropWhile_digits [OF assms(2)])
  have fr: "fraction (if fp = [] then [] else CHR ''.'' # fp) = (fp, [])"
    using assms(3) by (simp add: takeWhile_all dropWhile_all)
  have ex: "exponent [] = 0"
    by (simp add: exponent_def)
  have val: "(if neg then - 1 else 1) * of_int (digits_val (ip @ fp)) / 10 ^ length fp
               = decimal_value neg ip fp"
    by (simp add: decimal_value_def digits_val_append field_simps)
  show ?thesis
    unfolding parseFloat_string_def sign_token [OF assms(1,2)]
    using inf assms(1) by (simp add: tw dw fr ex scale10_def val del: fraction.simps)
qed

lemma match_here_Some:
  assumes "g \<noteq> []" "CHR '')'' \<notin> set g"
  shows "match_here (''POINT ('' @ g @ CHR '')'' # post) = Some g"
proof -
  have "takeWhile (\<lambda>c. c \<noteq> CHR '')'') (g @ CHR '')'' # post) = g"
    using assms(2) by (induction g) auto
  moreover have "dropWhile (\<lambda>c. c \<noteq> CHR '')'') (g @ CHR '')'' # post) = CHR '')'' # post"
    using assms(2) by (induction g) auto
  ultimately show ?thesis
    using assms(1) by (simp add: match_here_def)
qed

lemma match_here_SomeD:
  assumes "match_here s = Some g"
  shows "\<exists>post. s = ''POINT ('' @ g @ CHR '')'' # post \<and> g \<noteq> [] \<and> CHR '')'' \<notin> set g"
proof -
  let ?t = "drop 7 s"
  from assms have p: "take 7 s = ''POINT (''"
    and g: "g = takeWhile (\<lambda>c. c \<noteq> CHR '')'') ?t" "g \<noteq> []"
    and r: "dropWhile (\<lambda>c. c \<noteq> CHR '')'') ?t \<noteq> []"
    by (auto simp: match_here_def Let_def split: if_splits)
  from r have "hd (dropWhile (\<lambda>c. c \<noteq> CHR '')'') ?t) = CHR '')''"
    using hd_dropWhile [of "\<lambda>c. c \<noteq> CHR '')''" ?t] by simp
  with r obtain post where d: "dropWhile (\<lambda>c. c \<noteq> CHR '')'') ?t = CHR '')'' # post"
    by (cases "dropWhile (\<lambda>c. c \<noteq> CHR '')'') ?t") auto
  have "s = take 7 s @ ?t"
    by simp
  also have "?t = g @ CHR '')'' # post"
    using takeWhile_dropWhile_id [of "\<lambda>c. c \<noteq> CHR '')''" ?t] by (simp add: g(1) d)
  finally have "s = ''POINT ('' @ g @ CHR '')'' # post"
    by (simp only: p)
  moreover have "CHR '')'' \<notin> set g"
    unfolding g(1) by (auto dest: set_takeWhileD)
  ultimately show ?thesis
    using g(2) by blast
qed

lemma wkt_match_SomeD:
  "wkt_match s = Some g \<Longrightarrow>
   \<exists>pre post. s = pre @ ''POINT ('' @ g @ CHR '')'' # post \<and> g \<noteq> [] \<and> CHR '')'' \<notin> set g"
proof (induction s)
  case Nil
  then show ?case by simp
next
  case (Cons c cs)
  show ?case
  proof (cases "match_here (c # cs)")
    case (Some g')
    with Cons.prems have "g' = g" by simp
    with Some match_here_SomeD [of "c # cs" g] show ?thesis
      by (metis append_Nil)
  next
    case None
    with Cons.prems have "wkt_match cs = Some g" by simp
    then obtain pre post where "cs = pre @ ''POINT ('' @ g @ CHR '')'' # post"
      and "g \<noteq> []" "CHR '')'' \<notin> set g"
      using Cons.IH by blast
    then have "c # cs = (c # pre) @ ''POINT ('' @ g @ CHR '')'' # post" by simp
    with \<open>g \<noteq> []\<close> \<open>CHR '')'' \<notin> set g\<close> show ?thesis by blast
  qed
qed

lemma wkt_match_found:
  assumes "g \<noteq> []" "CHR '')'' \<notin> set g"
  shows "wkt_match (pre @ ''POINT ('' @ g @ CHR '')'' # post) \<noteq> None"
proof (induction pre)
  case Nil
  have "wkt_match (''POINT ('' @ g @ CHR '')'' # post) = Some g"
    using match_here_Some [OF assms, of post] by simp
  then show ?case by simp
next
  case (Cons c pre)
  then show ?case
    by (cases "match_here (c # pre @ ''POINT ('' @ g @ CHR '')'' # post)") auto
qed

lemma wkt_match_head:
  assumes "g \<noteq> []" "CHR '')'' \<notin> set g"
  shows "wkt_match (''POINT ('' @ g @ CHR '')'' # post) = Some g"
  using match_here_Some [OF assms, of post] by simp

lemma split_no_sep:
  assumes "sep \<notin> set x"
  shows "split sep x = [x]"
proof -
  have tw: "takeWhile (\<lambda>c. c \<noteq> sep) x = x"
    using assms by (induction x) auto
  have dw: "dropWhile (\<lambda>c. c \<noteq> sep) x = []"
    using assms by (induction x) auto
  show ?thesis
    by (subst split.simps) (simp only: tw dw list.case)
qed

lemma split_two:
  assumes "sep \<notin> set x" "sep \<notin> set y"
  shows "split sep (x @ sep # y) = [x, y]"
proof -
  have tw: "takeWhile (\<lambda>c. c \<noteq> sep) (x @ sep # y) = x"
    using assms(1) by (induction x) auto
  have dw: "dropWhile (\<lambda>c. c \<noteq> sep) (x @ sep # y) = sep # y"
    using assms(1) by (induction x) auto
  show ?thesis
    by (subst split.simps) (simp only: tw dw list.case split_no_sep [OF assms(2)])
qed

lemma decimal_token_chars:
  assumes "ip \<noteq> []" "list_all is_digit ip" "list_all is_digit fp"
  shows "decimal_token neg ip fp \<noteq> []"
    and "CHR '' '' \<notin> set (decimal_token neg ip fp)"
    and "CHR '')'' \<notin> set (decimal_token neg ip fp)"
  using assms is_digit_cases by (auto simp: decimal_token_def list_all_iff)

text \<open>
  C1: for signed decimal tokens \<open>x\<close> and \<open>y\<close>, parsing \<open>POINT (x y)\<close> gives the
  pair whose longitude is the number \<open>x\<close> denotes and whose latitude is the number
  \<open>y\<close> denotes: the first token is the longitude, the second the latitude.
\<close>

theorem parseWKT_well_formed:
  assumes "ip1 \<noteq> []" "list_all is_digit ip1" "list_all is_digit fp1"
    and "ip2 \<noteq> []" "list_all is_digit ip2" "list_all is_digit fp2"
  shows "parseWKT (''POINT ('' @ decimal_token n1 ip1 fp1 @ '' '' @ decimal_token n2 ip2 fp2 @ '')'')
           = Some \<lparr> longitude = Fin (decimal_value n1 ip1 fp1),
                     latitude = Fin (decimal_value n2 ip2 fp2) \<rparr>"
proof -
  let ?x = "decimal_token n1 ip1 fp1" and ?y = "decimal_token n2 ip2 fp2"
  let ?g = "?x @ CHR '' '' # ?y"
  have g: "?g \<noteq> []" "CHR '')'' \<notin> set ?g"
    using decimal_token_chars(3) [OF assms(1-3)] decimal_token_chars(3) [OF assms(4-6)]
    by simp_all
  have m: "wkt_match (''POINT ('' @ ?g @ CHR '')'' # []) = Some ?g"
    by (rule wkt_match_head [OF g])
  have s: "split CHR '' '' ?g = [?x, ?y]"
    by (rule split_two [OF decimal_token_chars(2) [OF assms(1-3)]
          decimal_token_chars(2) [OF assms(4-6)]])
  have "parseWKT (''POINT ('' @ ?g @ CHR '')'' # [])
          = Some \<lparr> longitude = parseFloat_string ?x, latitude = parseFloat_string ?y \<rparr>"
    unfolding parseWKT_def m by (simp add: s index_def)
  then show ?thesis
    by (simp add: parseFloat_decimal_token [OF assms(1-3)] parseFloat_decimal_token [OF assms(4-6)])
qed

theorem parseWKT_well_formed_witness:
  "parseWKT ''POINT (10 20)'' = Some \<lparr> longitude = Fin 10, latitude = Fin 20 \<rparr>"
  using parseWKT_well_formed [of "''10''" "[]" "''20''" "[]" False False]
  by (simp add: decimal_token_def decimal_value_def is_digit_def digits_val_def digit_val_def)

lemma parseWKT_None_wkt_match: "parseWKT txt = None \<longleftrightarrow> wkt_match txt = None"
  by (simp add: parseWKT_def Let_def split: option.splits)

text \<open>
  C2, as amended: \<open>parseWKT\<close> gives \<open>null\<close> exactly for the texts with no place
  where \<open>POINT (\<close> is followed by one or more characters other than \<open>)\<close> and then by
  \<open>)\<close>; so it does for every text with no \<open>(\<close> or no \<open>)\<close>. It is a total
  function: no text makes it throw. The number of tokens and their being numeric are
  not checked.
\<close>

theorem parseWKT_None_iff:
  "(parseWKT txt = None \<longleftrightarrow>
      \<not> (\<exists>pre g post. txt = pre @ ''POINT ('' @ g @ '')'' @ post \<and> g \<noteq> [] \<and> CHR '')'' \<notin> set g))
   \<and> (CHR ''('' \<notin> set txt \<or> CHR '')'' \<notin> set txt \<longrightarrow> parseWKT txt = None)"
proof -
  have iff: "parseWKT txt = None \<longleftrightarrow>
      \<not> (\<exists>pre g post. txt = pre @ ''POINT ('' @ g @ '')'' @ post \<and> g \<noteq> [] \<and> CHR '')'' \<notin> set g)"
  proof
    assume "parseWKT txt = None"
    then have n: "wkt_match txt = None"
      by (simp only: parseWKT_None_wkt_match)
    show "\<not> (\<exists>pre g post. txt = pre @ ''POINT ('' @ g @ '')'' @ post \<and> g \<noteq> [] \<and> CHR '')'' \<notin> set g)"
    proof
      assume "\<exists>pre g post. txt = pre @ ''POINT ('' @ g @ '')'' @ post \<and> g \<noteq> [] \<and> CHR '')'' \<notin> set g"
      then obtain pre g post where "txt = pre @ ''POINT ('' @ g @ CHR '')'' # post"
        and "g \<noteq> []" "CHR '')'' \<notin> set g"
        by auto
      with wkt_match_found [of g pre post] n show False
        by simp
    qed
  next
    assume a: "\<not> (\<exists>pre g post. txt = pre @ ''POINT ('' @ g @ '')'' @ post \<and> g \<noteq> [] \<and> CHR '')'' \<notin> set g)"
    have "wkt_match txt = None"
    proof (cases "wkt_match txt")
      case None
      then show ?thesis .
    next
      case (Some g)
      from wkt_match_SomeD [OF Some] a show ?thesis
        by auto
    qed
    then show "parseWKT txt = None"
      by (simp only: parseWKT_None_wkt_match)
  qed
  have "parseWKT txt = None" if "CHR ''('' \<notin> set txt \<or> CHR '')'' \<notin> set txt"
  proof (rule ccontr)
    assume "parseWKT txt \<noteq> None"
    with iff obtain pre g post where "txt = pre @ ''POINT ('' @ g @ '')'' @ post"
      by blast
    then have "CHR ''('' \<in> set txt \<and> CHR '')'' \<in> set txt"
      by simp
    with that show False
      by blast
  qed
  with iff show ?thesis
    by blast
qed

theorem parseWKT_None_iff_witness:
  "parseWKT ''POINT 10 20'' = None
   \<and> \<not> (\<exists>pre g post. ''POINT 10 20'' = pre @ ''POINT ('' @ g @ '')'' @ post
          \<and> g \<noteq> [] \<and> CHR '')'' \<notin> set g)"
proof -
  note t = parseWKT_None_iff [of "''POINT 10 20''"]
  have p: "CHR ''('' \<notin> set ''POINT 10 20''"
    by simp
  from conjunct2 [OF t] p have n: "parseWKT ''POINT 10 20'' = None"
    by simp
  from iffD1 [OF conjunct1 [OF t] n] n show ?thesis
    by (simp only: simp_thms)
qed

text \<open>
  C2 as stated fails: with the parentheses in place, a token that is no number, a
  missing token and an extra token all give a pair, not \<open>null\<close>.
\<close>

theorem parseWKT_malformed_counterexample:
  "parseWKT ''POINT (abc def)'' = Some \<lparr> longitude = NaN, latitude = NaN \<rparr>
   \<and> parseWKT ''POINT (10)'' = Some \<lparr> longitude = Fin 10, latitude = NaN \<rparr>
   \<and> parseWKT ''POINT (10 20 30)'' = Some \<lparr> longitude = Fin 10, latitude = Fin 20 \<rparr>"
  by code_simp

section \<open>Properties of the normalizers\<close>

lemma bind_Inr_iff: "bind m f = Inr y \<longleftrightarrow> (\<exists>x. m = Inr x \<and> f x = Inr y)"
  by (cases m) (simp_all add: bind_def)




lemma map_events_set:
  "map_events es = Inr evs \<Longrightarrow> ev \<in> set evs \<Longrightarrow> \<exists>e \<in> set es. transform_event e = Inr ev"
proof (induction es arbitrary: evs)
  case Nil
  then show ?case by simp
next
  case (Cons e es)
  from Cons.prems(1) obtain x xs where x: "transform_event e = Inr x"
    and xs: "map_events es = Inr xs" and evs: "evs = x # xs"
    by (auto simp: bind_Inr_iff)
  show ?case
  proof (cases "ev = x")
    case True
    with x show ?thesis by simp
  next
    case False
    with Cons.prems(2) evs have "ev \<in> set xs" by simp
    with Cons.IH [OF xs] show ?thesis by auto
  qed
qed

lemma transform_set:
  assumes "transform data = Inr evs" "ev \<in> set evs"
  shows "\<not> isNaN (latitude ev) \<and> \<not> isNaN (longitude ev) \<and> (\<exists>e. transform_event e = Inr ev)"
proof -
  from assms(1) obtain events where ev: "get_prop data ''events'' = Inr events"
    and c: "(case events of
         JUndefined \<Rightarrow> Inr []
       | JNull \<Rightarrow> Inr []
       | JArr es \<Rightarrow>
           bind (map_events es) (\<lambda>evs.
             Inr (filter (\<lambda>event. \<not> isNaN (latitude event) \<and> \<not> isNaN (longitude event)) evs))
       | _ \<Rightarrow> Inl TypeError) = Inr evs"
    by (auto simp: transform_def bind_Inr_iff)
  show ?thesis
  proof (cases events)
    case (JArr es)
    with c obtain xs where xs: "map_events es = Inr xs"
      and evs: "evs = filter (\<lambda>event. \<not> isNaN (latitude event) \<and> \<not> isNaN (longitude event)) xs"
      by (auto simp: bind_Inr_iff)
    from evs assms(2) have "ev \<in> set xs" and "\<not> isNaN (latitude ev) \<and> \<not> isNaN (longitude ev)"
      by auto
    with map_events_set [OF xs] show ?thesis by blast
  qed (use c assms(2) in auto)
qed

lemma sampleParkruns_length: "length sampleParkruns = 5"
  by (simp add: sampleParkruns_def)

lemma sampleParkruns_fields:
  "ev \<in> set sampleParkruns \<Longrightarrow>
     \<not> isNaN (latitude ev) \<and> \<not> isNaN (longitude ev)
     \<and> country ev = JStr ''UK'' \<and> status ev = JStr ''active''
     \<and> region ev \<noteq> JUndefined \<and> region ev \<noteq> JNull"
  by (auto simp: sampleParkruns_def isNaN_def)

lemma fetchParkruns_cases:
  "(\<exists>data evs. outcome = Response True (Some data) \<and> transform data = Inr evs
       \<and> fetchParkruns outcome st = st\<lparr> parkruns := evs, parkrunCount := length evs \<rparr>)
   \<or> fetchParkruns outcome st
        = st\<lparr> parkruns := sampleParkruns, parkrunCount := length sampleParkruns,
              toasts := toasts st @ [''Using sample data''] \<rparr>"
proof (cases "fetch_events outcome")
  case (Inl e)
  then show ?thesis by (simp add: fetchParkruns_def)
next
  case (Inr evs)
  then have "\<exists>data. outcome = Response True (Some data) \<and> transform data = Inr evs"
    by (auto simp: fetch_events_def split: fetch_outcome.splits if_splits option.splits)
  with Inr show ?thesis by (auto simp: fetchParkruns_def)
qed

lemma fetchParkruns_no_NaN:
  assumes "ev \<in> set (parkruns (fetchParkruns outcome st))"
  shows "\<not> isNaN (latitude ev) \<and> \<not> isNaN (longitude ev)"
  using fetchParkruns_cases [of outcome st] assms
  by (auto dest: transform_set sampleParkruns_fields)

lemma fetchParkruns_count:
  "parkrunCount (fetchParkruns outcome st) = length (parkruns (fetchParkruns outcome st))"
  using fetchParkruns_cases [of outcome st] by auto

lemma parks_csv_valid:
  assumes "park \<in> set (parks_csv data)"
  shows "truthy (name park) \<and> \<not> isNaN (latitude park) \<and> \<not> isNaN (longitude park)"
  using assms by (auto simp: parks_csv_def)

text \<open>
  C3, as amended: in the dataset of the feed and in the dataset of the table no record
  has a \<open>NaN\<close> latitude or longitude, and the count reported is the length of the
  dataset. The range of the coordinates is not checked.
\<close>

theorem nan_coordinates_excluded:
  "(\<forall>ev \<in> set (parkruns (fetchParkruns outcome st)).
       \<not> isNaN (latitude ev) \<and> \<not> isNaN (longitude ev))
   \<and> parkrunCount (fetchParkruns outcome st) = length (parkruns (fetchParkruns outcome st))
   \<and> (\<forall>park \<in> set (themeParks (fetchThemeParks (Parsed data) st)).
       \<not> isNaN (latitude park) \<and> \<not> isNaN (longitude park))
   \<and> themeParkCount (fetchThemeParks (Parsed data) st)
       = length (themeParks (fetchThemeParks (Parsed data) st))"
proof -
  have "\<forall>ev \<in> set (parkruns (fetchParkruns outcome st)).
          \<not> isNaN (latitude ev) \<and> \<not> isNaN (longitude ev)"
    using fetchParkruns_no_NaN by blast
  moreover have "\<forall>park \<in> set (themeParks (fetchThemeParks (Parsed data) st)).
          \<not> isNaN (latitude park) \<and> \<not> isNaN (longitude park)"
    using parks_csv_valid by (auto simp: fetchThemeParks_def)
  moreover have "themeParkCount (fetchThemeParks (Parsed data) st)
       = length (themeParks (fetchThemeParks (Parsed data) st))"
    by (simp add: fetchThemeParks_def)
  ultimately show ?thesis
    using fetchParkruns_count by blast
qed

lemma feed_with_bad_latitude:
  "parkruns (fetchParkruns
     (Response True (Some (JObj [(''events'', JArr
       [JObj [(''id'', JNum (Fin 1)), (''name'', JStr ''A''),
              (''latitude'', JStr ''bad''), (''longitude'', JStr ''-1.0'')],
        JObj [(''id'', JNum (Fin 2)), (''name'', JStr ''B''),
              (''latitude'', JStr ''51.5''), (''longitude'', JStr ''-0.1'')]])])))
     (mount True))
     = [\<lparr> longitude = Fin (- 1 / 10), latitude = Fin (103 / 2), name = JStr ''B'',
          country = JStr ''UK'', event_id = JNum (Fin 2), region = JStr [],
          status = JStr ''active'' \<rparr>]"
  by code_simp

theorem nan_coordinates_excluded_witness:
  "length (parkruns (fetchParkruns
     (Response True (Some (JObj [(''events'', JArr
       [JObj [(''id'', JNum (Fin 1)), (''name'', JStr ''A''),
              (''latitude'', JStr ''bad''), (''longitude'', JStr ''-1.0'')],
        JObj [(''id'', JNum (Fin 2)), (''name'', JStr ''B''),
              (''latitude'', JStr ''51.5''), (''longitude'', JStr ''-0.1'')]])])))
     (mount True))) = 1
   \<and> parkrunCount (fetchParkruns
     (Response True (Some (JObj [(''events'', JArr
       [JObj [(''id'', JNum (Fin 1)), (''name'', JStr ''A''),
              (''latitude'', JStr ''bad''), (''longitude'', JStr ''-1.0'')],
        JObj [(''id'', JNum (Fin 2)), (''name'', JStr ''B''),
              (''latitude'', JStr ''51.5''), (''longitude'', JStr ''-0.1'')]])])))
     (mount True)) = 1
   \<and> \<not> isNaN (latitude (hd (parkruns (fetchParkruns
     (Response True (Some (JObj [(''events'', JArr
       [JObj [(''id'', JNum (Fin 1)), (''name'', JStr ''A''),
              (''latitude'', JStr ''bad''), (''longitude'', JStr ''-1.0'')],
        JObj [(''id'', JNum (Fin 2)), (''name'', JStr ''B''),
              (''latitude'', JStr ''51.5''), (''longitude'', JStr ''-0.1'')]])])))
     (mount True)))))"
proof -
  let ?S = "fetchParkruns
     (Response True (Some (JObj [(''events'', JArr
       [JObj [(''id'', JNum (Fin 1)), (''name'', JStr ''A''),
              (''latitude'', JStr ''bad''), (''longitude'', JStr ''-1.0'')],
        JObj [(''id'', JNum (Fin 2)), (''name'', JStr ''B''),
              (''latitude'', JStr ''51.5''), (''longitude'', JStr ''-0.1'')]])])))
     (mount True)"
  note t = nan_coordinates_excluded [of
     "(Response True (Some (JObj [(''events'', JArr
       [JObj [(''id'', JNum (Fin 1)), (''name'', JStr ''A''),
              (''latitude'', JStr ''bad''), (''longitude'', JStr ''-1.0'')],
        JObj [(''id'', JNum (Fin 2)), (''name'', JStr ''B''),
              (''latitude'', JStr ''51.5''), (''longitude'', JStr ''-0.1'')]])])))"
     "mount True" "[]"]
  have d: "parkruns ?S
     = [\<lparr> longitude = Fin (- 1 / 10), latitude = Fin (103 / 2), name = JStr ''B'',
          country = JStr ''UK'', event_id = JNum (Fin 2), region = JStr [],
          status = JStr ''active'' \<rparr>]"
    by (rule feed_with_bad_latitude)
  from t have all: "\<forall>ev \<in> set (parkruns ?S). \<not> isNaN (latitude ev) \<and> \<not> isNaN (longitude ev)"
    by blast
  from t have c: "parkrunCount ?S = length (parkruns ?S)"
    by blast
  have l: "length (parkruns ?S) = 1"
    unfolding d by simp
  then have "hd (parkruns ?S) \<in> set (parkruns ?S)"
    by (cases "parkruns ?S") simp_all
  with all have "\<not> isNaN (latitude (hd (parkruns ?S)))"
    by blast
  with l c show ?thesis
    by simp
qed

text \<open>
  C3 as stated fails: a feed entry with latitude 91 and longitude -200 is kept and
  counted, and so is a row of the table with latitude 95; and the static list keeps an
  item whose tokens are not numbers.
\<close>

theorem range_not_checked_counterexample:
  "parkruns (fetchParkruns
     (Response True (Some (JObj [(''events'', JArr
       [JObj [(''id'', JNum (Fin 1)), (''name'', JStr ''A''),
              (''latitude'', JStr ''91''), (''longitude'', JStr ''-200'')]])])))
     (mount True))
     = [\<lparr> longitude = Fin (- 200), latitude = Fin 91, name = JStr ''A'', country = JStr ''UK'',
          event_id = JNum (Fin 1), region = JStr [], status = JStr ''active'' \<rparr>]
   \<and> parkrunCount (fetchParkruns
     (Response True (Some (JObj [(''events'', JArr
       [JObj [(''id'', JNum (Fin 1)), (''name'', JStr ''A''),
              (''latitude'', JStr ''91''), (''longitude'', JStr ''-200'')]])])))
     (mount True)) = 1
   \<and> parks_csv [[''name'' \<mapsto> ''P'', ''lat'' \<mapsto> ''95'', ''lon'' \<mapsto> ''0'']]
     = [\<lparr> longitude = Fin 0, latitude = Fin 95, name = JStr ''P'', country = JStr [],
          state = JStr [] \<rparr>]
   \<and> (90 :: rat) < 91 \<and> (- 200 :: rat) < - 180 \<and> (90 :: rat) < 95
   \<and> parks_wkt [\<lparr> wkt = ''POINT (abc def)'', item_name = ''Q'', description = [] \<rparr>]
     = [\<lparr> longitude = NaN, latitude = NaN, name = JStr ''Q'',
          country = JStr ''International'', state = JUndefined \<rparr>]"
  by code_simp

text \<open>
  C4: the feed keeps and counts an entry whose name is empty, and the static list
  keeps an item whose name is empty; the table drops a row whose name is empty.
\<close>

theorem empty_name_kept:
  "parkruns (fetchParkruns
     (Response True (Some (JObj [(''events'', JArr
       [JObj [(''id'', JNum (Fin 1)), (''name'', JStr []),
              (''latitude'', JStr ''51.5''), (''longitude'', JStr ''-0.1'')]])])))
     (mount True))
     = [\<lparr> longitude = Fin (- 1 / 10), latitude = Fin (103 / 2), name = JStr [],
          country = JStr ''UK'', event_id = JNum (Fin 1), region = JStr [],
          status = JStr ''active'' \<rparr>]
   \<and> parkrunCount (fetchParkruns
     (Response True (Some (JObj [(''events'', JArr
       [JObj [(''id'', JNum (Fin 1)), (''name'', JStr []),
              (''latitude'', JStr ''51.5''), (''longitude'', JStr ''-0.1'')]])])))
     (mount True)) = 1
   \<and> parks_wkt [\<lparr> wkt = ''POINT (1 2)'', item_name = [], description = [] \<rparr>]
     = [\<lparr> longitude = Fin 1, latitude = Fin 2, name = JStr [],
          country = JStr ''International'', state = JUndefined \<rparr>]
   \<and> parks_csv [[''name'' \<mapsto> [], ''latitude'' \<mapsto> ''51.5'', ''longitude'' \<mapsto> ''-0.1'']] = []"
  by code_simp

text \<open>
  C5: when the request fails with a network error, when the response is not ok (a
  status 500, say), when its body does not decode, and when reading the decoded body
  throws, the running events are the five sample events and the count reported is 5.
\<close>

theorem fetch_failure_gives_samples:
  assumes "outcome = NetworkFailure
           \<or> (\<exists>body. outcome = Response False body)
           \<or> outcome = Response True None
           \<or> (\<exists>data e. outcome = Response True (Some data) \<and> transform data = Inl e)"
  shows "parkruns (fetchParkruns outcome st) = sampleParkruns
         \<and> length sampleParkruns = 5
         \<and> parkrunCount (fetchParkruns outcome st) = 5"
proof -
  from assms have "\<exists>e. fetch_events outcome = Inl e"
    by (auto simp: fetch_events_def)
  then show ?thesis
    by (auto simp: fetchParkruns_def sampleParkruns_length)
qed

theorem fetch_failure_gives_samples_witness:
  "parkruns (fetchParkruns (Response False (Some JNull)) (mount True)) = sampleParkruns
   \<and> length sampleParkruns = 5
   \<and> parkrunCount (fetchParkruns (Response False (Some JNull)) (mount True)) = 5"
  using fetch_failure_gives_samples [of "Response False (Some JNull)" "mount True"]
  by simp

lemma column_update_other: "k \<noteq> a \<Longrightarrow> column (row(k \<mapsto> v)) a = column row a"
  by (simp add: column_def)

lemma column_update_same: "column (row(a \<mapsto> v)) a = JStr v"
  by (simp add: column_def)

lemma js_or_JStr: "v \<noteq> [] \<Longrightarrow> js_or (JStr v) d = JStr v"
  by (simp add: js_or_def)

lemma js_or_blank: "row b \<in> {None, Some []} \<Longrightarrow> js_or (column row b) d = d"
  by (auto simp: column_def js_or_def)

lemma themePark_of_row_ignores:
  assumes "k \<notin> set [''name'', ''Name'', ''latitude'', ''Latitude'', ''lat'', ''longitude'',
                   ''Longitude'', ''lng'', ''lon'', ''country'', ''Country'', ''state'', ''State'']"
  shows "themePark_of_row (row(k \<mapsto> v)) = themePark_of_row row"
proof -
  have "column (row(k \<mapsto> v)) a = column row a"
    if "a \<in> set [''name'', ''Name'', ''latitude'', ''Latitude'', ''lat'', ''longitude'',
                   ''Longitude'', ''lng'', ''lon'', ''country'', ''Country'', ''state'', ''State'']"
    for a
  proof -
    from that assms have "k \<noteq> a" by blast
    then show ?thesis by (rule column_update_other)
  qed
  then show ?thesis
    by (simp add: themePark_of_row_def)
qed

lemma name_aliases:
  assumes "v \<noteq> []"
  shows "name (themePark_of_row (row(''name'' \<mapsto> v))) = JStr v"
    and "row ''name'' \<in> {None, Some []}
           \<Longrightarrow> name (themePark_of_row (row(''Name'' \<mapsto> v))) = JStr v"
  using assms
  by (simp_all add: themePark_of_row_def column_update_same column_update_other
      js_or_JStr js_or_blank)

lemma latitude_aliases:
  assumes "v \<noteq> []"
  shows "latitude (themePark_of_row (row(''latitude'' \<mapsto> v))) = parseFloat_string v"
    and "row ''latitude'' \<in> {None, Some []}
           \<Longrightarrow> latitude (themePark_of_row (row(''Latitude'' \<mapsto> v))) = parseFloat_string v"
    and "row ''latitude'' \<in> {None, Some []} \<Longrightarrow> row ''Latitude'' \<in> {None, Some []}
           \<Longrightarrow> latitude (themePark_of_row (row(''lat'' \<mapsto> v))) = parseFloat_string v"
  using assms
  by (simp_all add: themePark_of_row_def column_update_same column_update_other
      js_or_JStr js_or_blank)

lemma longitude_aliases:
  assumes "v \<noteq> []"
  shows "longitude (themePark_of_row (row(''longitude'' \<mapsto> v))) = parseFloat_string v"
    and "row ''longitude'' \<in> {None, Some []}
           \<Longrightarrow> longitude (themePark_of_row (row(''Longitude'' \<mapsto> v))) = parseFloat_string v"
    and "row ''longitude'' \<in> {None, Some []} \<Longrightarrow> row ''Longitude'' \<in> {None, Some []}
           \<Longrightarrow> longitude (themePark_of_row (row(''lng'' \<mapsto> v))) = parseFloat_string v"
    and "row ''longitude'' \<in> {None, Some []} \<Longrightarrow> row ''Longitude'' \<in> {None, Some []}
           \<Longrightarrow> row ''lng'' \<in> {None, Some []}
           \<Longrightarrow> longitude (themePark_of_row (row(''lon'' \<mapsto> v))) = parseFloat_string v"
  using assms
  by (simp_all add: themePark_of_row_def column_update_same column_update_other
      js_or_JStr js_or_blank)

lemma country_state_aliases:
  assumes "v \<noteq> []"
  shows "country (themePark_of_row (row(''country'' \<mapsto> v))) = JStr v"
    and "row ''country'' \<in> {None, Some []}
           \<Longrightarrow> country (themePark_of_row (row(''Country'' \<mapsto> v))) = JStr v"
    and "state (themePark_of_row (row(''state'' \<mapsto> v))) = JStr v"
    and "row ''state'' \<in> {None, Some []}
           \<Longrightarrow> state (themePark_of_row (row(''State'' \<mapsto> v))) = JStr v"
  using assms
  by (simp_all add: themePark_of_row_def column_update_same column_update_other
      js_or_JStr js_or_blank)

text \<open>
  C6, as amended: the columns are matched by their exact names. A column whose name is
  none of \<open>name\<close>, \<open>Name\<close>, \<open>latitude\<close>, \<open>Latitude\<close>, \<open>lat\<close>, \<open>longitude\<close>,
  \<open>Longitude\<close>, \<open>lng\<close>, \<open>lon\<close>, \<open>country\<close>, \<open>Country\<close>, \<open>state\<close>, \<open>State\<close>
  is ignored. Each of these names gives its field the cell when the cell is not empty
  and the names before it for the same field are absent or empty.
\<close>

theorem columns_matched_exactly:
  "(k \<notin> set [''name'', ''Name'', ''latitude'', ''Latitude'', ''lat'', ''longitude'',
                   ''Longitude'', ''lng'', ''lon'', ''country'', ''Country'', ''state'', ''State'']
      \<longrightarrow> themePark_of_row (row(k \<mapsto> v)) = themePark_of_row row)
   \<and> (v \<noteq> [] \<longrightarrow>
        name (themePark_of_row (row(''name'' \<mapsto> v))) = JStr v
      \<and> (row ''name'' \<in> {None, Some []}
           \<longrightarrow> name (themePark_of_row (row(''Name'' \<mapsto> v))) = JStr v)
      \<and> latitude (themePark_of_row (row(''latitude'' \<mapsto> v))) = parseFloat_string v
      \<and> (row ''latitude'' \<in> {None, Some []}
           \<longrightarrow> latitude (themePark_of_row (row(''Latitude'' \<mapsto> v))) = parseFloat_string v)
      \<and> (row ''latitude'' \<in> {None, Some []} \<and> row ''Latitude'' \<in> {None, Some []}
           \<longrightarrow> latitude (themePark_of_row (row(''lat'' \<mapsto> v))) = parseFloat_string v)
      \<and> longitude (themePark_of_row (row(''longitude'' \<mapsto> v))) = parseFloat_string v
      \<and> (row ''longitude'' \<in> {None, Some []}
           \<longrightarrow> longitude (themePark_of_row (row(''Longitude'' \<mapsto> v))) = parseFloat_string v)
      \<and> (row ''longitude'' \<in> {None, Some []} \<and> row ''Longitude'' \<in> {None, Some []}
           \<longrightarrow> longitude (themePark_of_row (row(''lng'' \<mapsto> v))) = parseFloat_string v)
      \<and> (row ''longitude'' \<in> {None, Some []} \<and> row ''Longitude'' \<in> {None, Some []}
            \<and> row ''lng'' \<in> {None, Some []}
           \<longrightarrow> longitude (themePark_of_row (row(''lon'' \<mapsto> v))) = parseFloat_string v)
      \<and> country (themePark_of_row (row(''country'' \<mapsto> v))) = JStr v
      \<and> (row ''country'' \<in> {None, Some []}
           \<longrightarrow> country (themePark_of_row (row(''Country'' \<mapsto> v))) = JStr v)
      \<and> state (themePark_of_row (row(''state'' \<mapsto> v))) = JStr v
      \<and> (row ''state'' \<in> {None, Some []}
           \<longrightarrow> state (themePark_of_row (row(''State'' \<mapsto> v))) = JStr v))"
  using themePark_of_row_ignores [of k row v] name_aliases [of v row]
    latitude_aliases [of v row] longitude_aliases [of v row] country_state_aliases [of v row]
  by blast

theorem columns_matched_exactly_witness:
  "themePark_of_row ([''name'' \<mapsto> ''X Park'', ''lat'' \<mapsto> ''10.5''](''NAME'' \<mapsto> ''Y''))
     = themePark_of_row [''name'' \<mapsto> ''X Park'', ''lat'' \<mapsto> ''10.5'']
   \<and> name (themePark_of_row ([''lat'' \<mapsto> ''10.5''](''Name'' \<mapsto> ''Y''))) = JStr ''Y''"
  using columns_matched_exactly [where k = "''NAME''" and v = "''Y''"
      and row = "[''name'' \<mapsto> ''X Park'', ''lat'' \<mapsto> ''10.5'']"]
    columns_matched_exactly [where k = "''Name''" and v = "''Y''"
      and row = "[''lat'' \<mapsto> ''10.5'']"]
  by simp

text \<open>
  C6 as stated fails: a column \<open>NAME\<close> is not read as the name and a column \<open>Lat\<close>
  is not read as the latitude, while \<open>name\<close> and \<open>lat\<close> are.
\<close>

theorem column_casing_counterexample:
  "name (themePark_of_row [''NAME'' \<mapsto> ''X Park'']) = JStr []
   \<and> name (themePark_of_row [''name'' \<mapsto> ''X Park'']) = JStr ''X Park''
   \<and> latitude (themePark_of_row [''Lat'' \<mapsto> ''10.5'']) = NaN
   \<and> latitude (themePark_of_row [''lat'' \<mapsto> ''10.5'']) = Fin (21 / 2)"
  by code_simp

text \<open>
  C7: the row with \<open>Name\<close> X Park, \<open>Latitude\<close> 10.5, \<open>Longitude\<close> -20.25 and
  \<open>Country\<close> Z is kept, with its coordinates read as numbers; the state it lacks is
  the empty string.
\<close>

theorem tabular_row_normalized:
  "parks_csv [[''Name'' \<mapsto> ''X Park'', ''Latitude'' \<mapsto> ''10.5'', ''Longitude'' \<mapsto> ''-20.25'',
               ''Country'' \<mapsto> ''Z'']]
     = [\<lparr> longitude = Fin (- 2025 / 100), latitude = Fin (105 / 10), name = JStr ''X Park'',
          country = JStr ''Z'', state = JStr [] \<rparr>]"
  by code_simp







text \<open>
  The entry with no \<open>country\<close>, \<open>region\<close> or \<open>status\<close> whose latitude is an
  object with an own key \<open>toString\<close> is not normalized: the callback throws, and the
  dataset is the sample list.
\<close>

lemma feed_entry_not_normalized:
  "transform_event (JObj [(''id'', JNum (Fin 1)), (''name'', JStr ''A''),
       (''latitude'', JObj [(''toString'', JNum (Fin 1))]), (''longitude'', JStr ''-0.1'')])
     = Inl TypeError
   \<and> parkruns (fetchParkruns (Response True (Some (JObj [(''events'', JArr
       [JObj [(''id'', JNum (Fin 1)), (''name'', JStr ''A''),
              (''latitude'', JObj [(''toString'', JNum (Fin 1))]),
              (''longitude'', JStr ''-0.1'')]])]))) (mount True)) = sampleParkruns"
  by code_simp

section \<open>Properties of the map\<close>

lemma parkrun_marker_ok:
  assumes "\<not> isNaN (latitude e)" "\<not> isNaN (longitude e)" "popup_has_text e"
  shows "\<exists>m. parkrun_marker e = Inr m"
  using assms
  by (simp add: parkrun_marker_def marker_def bind_def bindPopup_def popup_has_text_def)

lemma parkrun_marker_fails:
  assumes "\<not> popup_has_text e"
  shows "\<exists>err. parkrun_marker e = Inl err"
  using assms
  by (auto simp: parkrun_marker_def marker_def bind_def bindPopup_def popup_has_text_def)

lemma column_text: "\<not> ToString_throws (column row k)"
  by (simp add: column_def split: option.splits)

lemma js_or_text:
  "\<not> ToString_throws a \<Longrightarrow> \<not> ToString_throws b \<Longrightarrow> \<not> ToString_throws (js_or a b)"
  by (simp add: js_or_def)

text \<open>On the cells of a row \<open>parseFloat\<close> returns, with the Number read.\<close>

lemma parseFloat_cells:
  "parseFloat (js_or (js_or (column row a) (column row b)) (column row c))
     = Inr (parseFloat_number (js_or (js_or (column row a) (column row b)) (column row c)))"
  "parseFloat (js_or (js_or (js_or (column row a) (column row b)) (column row c)) (column row d))
     = Inr (parseFloat_number
         (js_or (js_or (js_or (column row a) (column row b)) (column row c)) (column row d)))"
  by (simp_all add: parseFloat_def js_or_text column_text)

lemma themePark_of_row_marker: "\<not> isNaN (latitude (themePark_of_row row)) \<Longrightarrow>
   \<not> isNaN (longitude (themePark_of_row row)) \<Longrightarrow> \<exists>m. themePark_marker (themePark_of_row row) = Inr m"
proof -
  assume n: "\<not> isNaN (latitude (themePark_of_row row))" "\<not> isNaN (longitude (themePark_of_row row))"
  have t: "\<not> ToString_throws (name (themePark_of_row row))"
    "\<not> ToString_throws (state (themePark_of_row row))"
    "\<not> ToString_throws (country (themePark_of_row row))"
    by (simp_all add: themePark_of_row_def js_or_text column_text)
  from n t show ?thesis
    by (simp add: themePark_marker_def marker_def bind_def bindPopup_def)
qed

lemma add_markers_ok:
  "(\<And>x. x \<in> set xs \<Longrightarrow> \<exists>m. mk x = Inr m) \<Longrightarrow> \<exists>layers. add_markers mk xs acc = Inr layers"
proof (induction xs arbitrary: acc)
  case Nil
  show ?case by simp
next
  case (Cons x xs)
  from Cons.prems [of x] obtain m where m: "mk x = Inr m" by auto
  from Cons.IH [of "acc @ [m]"] Cons.prems obtain layers
    where "add_markers mk xs (acc @ [m]) = Inr layers"
    by auto
  with m show ?case by (simp add: bind_def)
qed

lemma add_markers_fails:
  "x \<in> set xs \<Longrightarrow> mk x = Inl e \<Longrightarrow> \<exists>e'. add_markers mk xs acc = Inl e'"
proof (induction xs arbitrary: acc)
  case Nil
  then show ?case by simp
next
  case (Cons a xs)
  show ?case
  proof (cases "mk a")
    case (Inl e')
    then show ?thesis by (simp add: bind_def)
  next
    case (Inr m)
    with Cons.prems have "x \<in> set xs" by auto
    from Cons.IH [OF this Cons.prems(2), of "acc @ [m]"] Inr show ?thesis
      by (simp add: bind_def)
  qed
qed

lemma markers_made_mount: "markers_made (mount container)"
  by (simp add: markers_made_def mount_def)

lemma parkruns_addable:
  assumes "list_all (\<lambda>ev. \<not> isNaN (latitude ev) \<and> \<not> isNaN (longitude ev)) evs"
    and "list_all popup_has_text evs"
  shows "\<exists>layers. add_markers parkrun_marker evs [] = Inr layers"
  using assms by (intro add_markers_ok parkrun_marker_ok) (auto simp: list_all_iff)

lemma themeParks_addable:
  "\<exists>layers. add_markers themePark_marker (parks_csv data) [] = Inr layers"
proof (rule add_markers_ok)
  fix park
  assume "park \<in> set (parks_csv data)"
  then obtain row where "park = themePark_of_row row"
    and "\<not> isNaN (latitude park)" "\<not> isNaN (longitude park)"
    by (auto simp: parks_csv_def)
  then show "\<exists>m. themePark_marker park = Inr m"
    using themePark_of_row_marker [of row] by simp
qed

lemma fetchParkruns_frame:
  "showParkruns (fetchParkruns outcome st) = showParkruns st"
  "showThemeParks (fetchParkruns outcome st) = showThemeParks st"
  "map_current (fetchParkruns outcome st) = map_current st"
  "themeParks (fetchParkruns outcome st) = themeParks st"
  "parkrunLayerGroup (fetchParkruns outcome st) = parkrunLayerGroup st"
  "themeParkLayerGroup (fetchParkruns outcome st) = themeParkLayerGroup st"
  by (simp_all add: fetchParkruns_def split: sum.splits)

lemma fetchParkruns_list_all:
  "list_all (\<lambda>ev. \<not> isNaN (latitude ev) \<and> \<not> isNaN (longitude ev))
     (parkruns (fetchParkruns outcome st))"
  using fetchParkruns_no_NaN [of _ outcome st] by (auto simp: list_all_iff)

lemma fetchThemeParks_frame:
  "showParkruns (fetchThemeParks outcome st) = showParkruns st"
  "showThemeParks (fetchThemeParks outcome st) = showThemeParks st"
  "map_current (fetchThemeParks outcome st) = map_current st"
  "parkruns (fetchThemeParks outcome st) = parkruns st"
  "parkrunLayerGroup (fetchThemeParks outcome st) = parkrunLayerGroup st"
  "themeParkLayerGroup (fetchThemeParks outcome st) = themeParkLayerGroup st"
  by (simp_all add: fetchThemeParks_def split: csv_outcome.splits)

lemma fetchThemeParks_data:
  "themeParks (fetchThemeParks (Parsed data) st) = parks_csv data"
  by (simp add: fetchThemeParks_def)

lemma step_markers_made:
  assumes "markers_made st" "step e st = Inr st'"
  shows "markers_made st'"
proof -
  from assms(1) obtain l2 where
    n: "list_all (\<lambda>ev. \<not> isNaN (latitude ev) \<and> \<not> isNaN (longitude ev)) (parkruns st)"
    and g1: "if map_current st \<and> showParkruns st
         then add_markers parkrun_marker (parkruns st) [] = Inr (parkrunLayerGroup st)
         else parkrunLayerGroup st = []"
    and l2: "add_markers themePark_marker (themeParks st) [] = Inr l2"
    and g2: "themeParkLayerGroup st = (if map_current st \<and> showThemeParks st then l2 else [])"
    unfolding markers_made_def by blast
  show ?thesis
  proof (cases e)
    case ToggleParkruns
    with assms(2) n g1 l2 g2 show ?thesis
      by (auto simp: updateParkrunMarkers_def markers_made_def bind_Inr_iff split: if_splits)
  next
    case ToggleThemeParks
    with assms(2) n g1 l2 g2 show ?thesis
      by (auto simp: updateThemeParkMarkers_def markers_made_def bind_def split: if_splits)
  next
    case (ParkrunsFetched outcome)
    with assms(2) fetchParkruns_list_all [of outcome st] g1 l2 g2 show ?thesis
      by (auto simp: updateParkrunMarkers_def markers_made_def bind_Inr_iff fetchParkruns_frame
          split: if_splits)
  next
    case (ThemeParksFetched outcome)
    show ?thesis
    proof (cases outcome)
      case (Parsed data)
      from themeParks_addable [of data] obtain l where
        l: "add_markers themePark_marker (parks_csv data) [] = Inr l"
        by blast
      with ThemeParksFetched Parsed assms(2) n g1 g2 show ?thesis
        by (auto simp: updateThemeParkMarkers_def markers_made_def bind_def
            fetchThemeParks_frame fetchThemeParks_data split: if_splits)
    next
      case FetchFailed
      with ThemeParksFetched assms(2) n g1 l2 g2 show ?thesis
        by (auto simp: markers_made_def fetchThemeParks_def)
    next
      case ParseError
      with ThemeParksFetched assms(2) n g1 l2 g2 show ?thesis
        by (auto simp: markers_made_def fetchThemeParks_def)
    qed
  qed
qed

lemma run_markers_made:
  "markers_made st \<Longrightarrow> run es st = Inr st' \<Longrightarrow> markers_made st'"
proof (induction es arbitrary: st)
  case Nil
  then show ?case by simp
next
  case (Cons e es)
  from Cons.prems(2) obtain st1 where s: "step e st = Inr st1" and r: "run es st1 = Inr st'"
    by (auto simp: bind_Inr_iff)
  from step_markers_made [OF Cons.prems(1) s] have "markers_made st1" .
  from Cons.IH [OF this r] show ?case .
qed

lemma run_append: "run (es @ es') st = bind (run es st) (run es')"
proof (induction es arbitrary: st)
  case Nil
  show ?case by (simp add: bind_def)
next
  case (Cons e es)
  show ?case
    by (cases "step e st") (simp_all add: bind_def Cons.IH)
qed

lemma toggle_parkruns_twice:
  assumes "markers_made st"
    and "showParkruns st \<or> \<not> map_current st \<or> list_all popup_has_text (parkruns st)"
  shows "run [ToggleParkruns, ToggleParkruns] st = Inr st"
proof -
  from assms(1) have
    n: "list_all (\<lambda>ev. \<not> isNaN (latitude ev) \<and> \<not> isNaN (longitude ev)) (parkruns st)"
    and g1: "if map_current st \<and> showParkruns st
         then add_markers parkrun_marker (parkruns st) [] = Inr (parkrunLayerGroup st)
         else parkrunLayerGroup st = []"
    unfolding markers_made_def by blast+
  show ?thesis
  proof (cases "map_current st")
    case False
    then show ?thesis
      by (simp add: updateParkrunMarkers_def bind_def)
  next
    case True
    show ?thesis
    proof (cases "showParkruns st")
      case True
      with \<open>map_current st\<close> g1 show ?thesis
        by (simp add: updateParkrunMarkers_def bind_def)
    next
      case False
      with \<open>map_current st\<close> assms(2) have "list_all popup_has_text (parkruns st)"
        by simp
      from parkruns_addable [OF n this] obtain l
        where "add_markers parkrun_marker (parkruns st) [] = Inr l"
        by blast
      with False \<open>map_current st\<close> g1 show ?thesis
        by (simp add: updateParkrunMarkers_def bind_def)
    qed
  qed
qed

lemma toggle_parkruns_throws:
  assumes "\<not> showParkruns st" "map_current st" "\<not> list_all popup_has_text (parkruns st)"
  shows "\<exists>e. step ToggleParkruns st = Inl e"
proof -
  from assms(3) obtain ev where "ev \<in> set (parkruns st)" "\<not> popup_has_text ev"
    by (auto simp: list_all_iff)
  with parkrun_marker_fails [of ev] add_markers_fails [of ev "parkruns st" parkrun_marker _ "[]"]
  obtain e where "add_markers parkrun_marker (parkruns st) [] = Inl e"
    by blast
  with assms(1,2) show ?thesis
    by (simp add: updateParkrunMarkers_def bind_def)
qed

lemma toggle_themeParks_twice:
  assumes "markers_made st"
  shows "run [ToggleThemeParks, ToggleThemeParks] st = Inr st"
proof -
  from assms obtain l2 where l2: "add_markers themePark_marker (themeParks st) [] = Inr l2"
    and g2: "themeParkLayerGroup st = (if map_current st \<and> showThemeParks st then l2 else [])"
    unfolding markers_made_def by blast
  then show ?thesis
    by (cases "map_current st"; cases "showThemeParks st")
      (simp_all add: updateThemeParkMarkers_def bind_def)
qed

lemma samples_then_both_hidden:
  "run [ParkrunsFetched NetworkFailure, ToggleParkruns, ToggleThemeParks] (mount True)
     = Inr ((mount True)\<lparr> showParkruns := False, showThemeParks := False,
              parkrunCount := 5, parkruns := sampleParkruns,
              toasts := [''Using sample data''] \<rparr>)"
  by code_simp

text \<open>
  C8: with both flags off, whatever the datasets, the marker effects leave no marker
  on the map; and whenever both flags are off on the page, no marker is on the map.
\<close>

theorem hidden_layers_show_nothing:
  "(\<not> showParkruns st \<and> \<not> showThemeParks st \<longrightarrow>
      (\<exists>st'. bind (updateParkrunMarkers st) updateThemeParkMarkers = Inr st'
          \<and> parkruns st' = parkruns st \<and> themeParks st' = themeParks st
          \<and> visibleMarkers st' = []))
   \<and> (run evs (mount container) = Inr st2 \<and> \<not> showParkruns st2 \<and> \<not> showThemeParks st2 \<longrightarrow>
        visibleMarkers st2 = [])"
proof -
  have effects: "\<exists>st'. bind (updateParkrunMarkers st) updateThemeParkMarkers = Inr st'
          \<and> parkruns st' = parkruns st \<and> themeParks st' = themeParks st
          \<and> visibleMarkers st' = []"
    if "\<not> showParkruns st" "\<not> showThemeParks st"
    using that
    by (simp add: updateParkrunMarkers_def updateThemeParkMarkers_def bind_def visibleMarkers_def)
  have page: "visibleMarkers st2 = []"
    if r: "run evs (mount container) = Inr st2" and "\<not> showParkruns st2" "\<not> showThemeParks st2"
  proof -
    from run_markers_made [OF markers_made_mount r]
    have "markers_made st2" .
    with that(2,3) show ?thesis
      by (auto simp: markers_made_def visibleMarkers_def)
  qed
  from effects page show ?thesis
    by blast
qed

theorem hidden_layers_show_nothing_witness:
  "parkruns ((mount True)\<lparr> showParkruns := False, showThemeParks := False,
              parkrunCount := 5, parkruns := sampleParkruns,
              toasts := [''Using sample data''] \<rparr>) = sampleParkruns
   \<and> visibleMarkers ((mount True)\<lparr> showParkruns := False, showThemeParks := False,
              parkrunCount := 5, parkruns := sampleParkruns,
              toasts := [''Using sample data''] \<rparr>) = []"
  using hidden_layers_show_nothing [of
      "(mount True)\<lparr> showParkruns := False, showThemeParks := False,
              parkrunCount := 5, parkruns := sampleParkruns,
              toasts := [''Using sample data''] \<rparr>"
      "[ParkrunsFetched NetworkFailure, ToggleParkruns, ToggleThemeParks]" True
      "(mount True)\<lparr> showParkruns := False, showThemeParks := False,
              parkrunCount := 5, parkruns := sampleParkruns,
              toasts := [''Using sample data''] \<rparr>"]
    samples_then_both_hidden
  by simp

text \<open>
  C9, as amended: from any state the page reaches, toggling one flag twice in a row
  brings the page back to that state, so the markers on the map are the ones that were
  there before, when the markers of the toggled layer can be made: always for the
  attractions; for the running events when the layer is shown, or there is no map, or
  every value their popups show has a string. When the layer of the running events is
  hidden on a map and some value has no string, the first toggle takes the page down.
\<close>

theorem toggle_twice_restores:
  assumes "run evs (mount container) = Inr st"
  shows "(t = ToggleThemeParks
            \<or> t = ToggleParkruns
              \<and> (showParkruns st \<or> \<not> map_current st \<or> list_all popup_has_text (parkruns st))
          \<longrightarrow> (\<exists>st'. run (evs @ [t, t]) (mount container) = Inr st'
                 \<and> visibleMarkers st' = visibleMarkers st
                 \<and> showParkruns st' = showParkruns st \<and> showThemeParks st' = showThemeParks st
                 \<and> parkruns st' = parkruns st \<and> themeParks st' = themeParks st))
       \<and> (\<not> showParkruns st \<and> map_current st \<and> \<not> list_all popup_has_text (parkruns st)
          \<longrightarrow> (\<exists>e. run (evs @ [ToggleParkruns]) (mount container) = Inl e))"
proof -
  from run_markers_made [OF markers_made_mount assms] have m: "markers_made st" .
  have restore: "run (evs @ [t, t]) (mount container) = Inr st"
    if "t = ToggleThemeParks
          \<or> t = ToggleParkruns
            \<and> (showParkruns st \<or> \<not> map_current st \<or> list_all popup_has_text (parkruns st))"
  proof -
    from that have "run [t, t] st = Inr st"
      using toggle_themeParks_twice [OF m] toggle_parkruns_twice [OF m] by blast
    with assms show ?thesis
      by (simp add: run_append bind_def)
  qed
  have down: "\<exists>e. run (evs @ [ToggleParkruns]) (mount container) = Inl e"
    if "\<not> showParkruns st" "map_current st" "\<not> list_all popup_has_text (parkruns st)"
  proof -
    from toggle_parkruns_throws [OF that] obtain e where "step ToggleParkruns st = Inl e"
      by blast
    with assms show ?thesis
      by (simp add: run_append bind_def)
  qed
  from restore down show ?thesis
    by auto
qed

lemma samples_shown:
  "run [ParkrunsFetched NetworkFailure] (mount True)
     = Inr (projr (run [ParkrunsFetched NetworkFailure] (mount True)))
   \<and> showParkruns (projr (run [ParkrunsFetched NetworkFailure] (mount True)))
   \<and> length (visibleMarkers (projr (run [ParkrunsFetched NetworkFailure] (mount True)))) = 5
   \<and> visibleMarkers (projr (run [ParkrunsFetched NetworkFailure, ToggleParkruns] (mount True))) = []"
  by code_simp

theorem toggle_twice_restores_witness:
  "length (visibleMarkers (projr (run [ParkrunsFetched NetworkFailure] (mount True)))) = 5
   \<and> visibleMarkers (projr (run [ParkrunsFetched NetworkFailure, ToggleParkruns] (mount True))) = []
   \<and> visibleMarkers (projr (run ([ParkrunsFetched NetworkFailure] @ [ToggleParkruns, ToggleParkruns])
         (mount True)))
       = visibleMarkers (projr (run [ParkrunsFetched NetworkFailure] (mount True)))"
proof -
  let ?st = "projr (run [ParkrunsFetched NetworkFailure] (mount True))"
  have r: "run [ParkrunsFetched NetworkFailure] (mount True) = Inr ?st"
    and s: "showParkruns ?st"
    using samples_shown by blast+
  from toggle_twice_restores [OF r, of ToggleParkruns] s obtain st'
    where "run ([ParkrunsFetched NetworkFailure] @ [ToggleParkruns, ToggleParkruns]) (mount True)
             = Inr st'"
      and "visibleMarkers st' = visibleMarkers ?st"
    by blast
  then have "visibleMarkers (projr (run ([ParkrunsFetched NetworkFailure]
                 @ [ToggleParkruns, ToggleParkruns]) (mount True)))
       = visibleMarkers ?st"
    by simp
  with samples_shown show ?thesis
    by blast
qed

text \<open>
  C9 as stated fails: with the layer of the running events hidden, the feed brings an
  event whose name is an object with an own key \<open>toString\<close>; the page is up with no
  marker on the map, and toggling the layer twice takes the page down.
\<close>

theorem toggle_twice_counterexample:
  "run [ToggleParkruns, ParkrunsFetched
     (Response True (Some (JObj [(''events'', JArr
       [JObj [(''id'', JNum (Fin 1)), (''name'', JObj [(''toString'', JNum (Fin 1))]),
              (''latitude'', JStr ''51.5''), (''longitude'', JStr ''-0.1'')]])])))]
     (mount True)
     = Inr ((mount True)\<lparr> showParkruns := False, parkrunCount := 1,
         parkruns := [\<lparr> longitude = Fin (- 1 / 10), latitude = Fin (103 / 2),
            name = JObj [(''toString'', JNum (Fin 1))], country = JStr ''UK'',
            event_id = JNum (Fin 1), region = JStr [], status = JStr ''active'' \<rparr>] \<rparr>)
   \<and> visibleMarkers ((mount True)\<lparr> showParkruns := False, parkrunCount := 1,
         parkruns := [\<lparr> longitude = Fin (- 1 / 10), latitude = Fin (103 / 2),
            name = JObj [(''toString'', JNum (Fin 1))], country = JStr ''UK'',
            event_id = JNum (Fin 1), region = JStr [], status = JStr ''active'' \<rparr>] \<rparr>) = []
   \<and> run [ToggleParkruns, ParkrunsFetched
     (Response True (Some (JObj [(''events'', JArr
       [JObj [(''id'', JNum (Fin 1)), (''name'', JObj [(''toString'', JNum (Fin 1))]),
              (''latitude'', JStr ''51.5''), (''longitude'', JStr ''-0.1'')]])]))),
     ToggleParkruns, ToggleParkruns]
     (mount True) = Inl TypeError"
  by code_simp

end
